theory Spec2Isabelle
  imports Complex_Main "HOL-Library.Multiset" "HOL-Library.Log_Nat"
begin

section \<open>Errors\<close>

text \<open>
  Every exception the modelled code can raise is a value. A \<open>ValueError\<close> carries what
  its message says; the message of the one-hot encoder names the offending values.
\<close>

datatype message =
    Incompatible_dimensions
  | Lengths_must_match
  | Index_exceeds_dimensions
  | Categories_not_unique
  | Axis_must_be_0_or_1
  | Level_in_non_MultiIndex
  | Unknown_categorical "int list"

datatype error =
    ValueError message
  | AssertionError
  | AttributeError
  | NotImplementedError
  | IndexError
  | ZeroDivisionError

section \<open>Binary64 arithmetic\<close>

text \<open>
  The entries of the matrices are \<open>f8\<close>: binary64 floating-point numbers. A finite
  binary64 number is a rational, and every operation of IEEE 754 returns the binary64
  number nearest to the exact result, ties going to the even significand. \<open>float64\<close>
  is that rounding: 53 significant bits at the binary exponent of the number, and at the
  exponent -1022 for the smaller (subnormal) numbers. Results beyond the largest
  binary64 number overflow to infinity in IEEE 754; that, the infinities and NaN are not
  modelled: the entries of this model are finite.
\<close>

definition round_half_even :: "rat \<Rightarrow> int" where
  "round_half_even x =
     (let f = \<lfloor>x\<rfloor>; d = x - of_int f
      in if d < 1 / 2 then f else if 1 / 2 < d then f + 1
         else if even f then f else f + 1)"

definition ilog2 :: "rat \<Rightarrow> int" where
  \<comment> \<open>the binary exponent of a positive rational\<close>
  "ilog2 x =
     (if 1 \<le> x then int (floorlog 2 (nat \<lfloor>x\<rfloor>)) - 1
      else - int (floorlog 2 (nat \<lceil>1 / x\<rceil> - 1)))"

definition float64 :: "rat \<Rightarrow> rat" where
  "float64 x =
     (if x = 0 then 0
      else (let a = \<bar>x\<bar>; e = max (ilog2 a) (- 1022);
                q = (if 52 \<le> e then 2 ^ nat (e - 52) else 1 / 2 ^ nat (52 - e))
            in sgn x * of_int (round_half_even (a / q)) * q))"

text \<open>Addition and multiplication of two binary64 numbers, and the sum of a sequence
  accumulated from the left, starting at zero.\<close>

definition fadd :: "rat \<Rightarrow> rat \<Rightarrow> rat" where
  "fadd x y = float64 (x + y)"


definition fsum :: "rat list \<Rightarrow> rat" where
  "fsum xs = foldl fadd 0 xs"

section \<open>Matrices\<close>

text \<open>
  A scipy sparse matrix is modelled by its dense content: the number of columns and the
  list of rows. The storage format (CSR, CSC, COO) does not change the content, so
  \<open>tocsr\<close> and \<open>tocsc\<close> are the identity. The entries are binary64 numbers: rationals,
  with every sum and product rounded. Labels are integers.
\<close>

record csr =
  ncols :: nat
  rws :: "rat list list"

definition nrows :: "csr \<Rightarrow> nat" where
  "nrows m = length (rws m)"

definition csr_shape :: "csr \<Rightarrow> nat \<times> nat" where
  "csr_shape m = (nrows m, ncols m)"

definition wf_csr :: "csr \<Rightarrow> bool" where
  "wf_csr m = list_all (\<lambda>r. length r = ncols m) (rws m)"

definition zero_row :: "rat list \<Rightarrow> bool" where
  "zero_row r = list_all (\<lambda>v. v = 0) r"

text \<open>\<open>sparse.coo_matrix((r, c))\<close>: the empty matrix of a shape.\<close>

definition zeros :: "nat \<Rightarrow> nat \<Rightarrow> csr" where
  "zeros r c = \<lparr>ncols = c, rws = replicate r (replicate c 0)\<rparr>"

text \<open>\<open>sparse.vstack([a, b])\<close> and \<open>sparse.hstack([a, b])\<close>: the blocks must agree on
  the other dimension, or scipy raises a \<open>ValueError\<close>.\<close>

definition vstack :: "csr \<Rightarrow> csr \<Rightarrow> error + csr" where
  "vstack a b =
     (if ncols a \<noteq> ncols b then Inl (ValueError Incompatible_dimensions)
      else Inr \<lparr>ncols = ncols a, rws = rws a @ rws b\<rparr>)"

definition hstack :: "csr \<Rightarrow> csr \<Rightarrow> error + csr" where
  "hstack a b =
     (if nrows a \<noteq> nrows b then Inl (ValueError Incompatible_dimensions)
      else Inr \<lparr>ncols = ncols a + ncols b, rws = map2 (@) (rws a) (rws b)\<rparr>)"

text \<open>A Python index into a sequence of length \<open>n\<close>: negative indices count from the
  end.\<close>

definition py_index :: "nat \<Rightarrow> int \<Rightarrow> error + nat" where
  "py_index n i =
     (let j = (if i < 0 then int n + i else i)
      in if 0 \<le> j \<and> j < int n then Inr (nat j) else Inl IndexError)"

fun py_indices :: "nat \<Rightarrow> int list \<Rightarrow> error + nat list" where
  "py_indices n [] = Inr []"
| "py_indices n (i # is) =
     (case py_index n i of
        Inl e \<Rightarrow> Inl e
      | Inr j \<Rightarrow> (case py_indices n is of Inl e \<Rightarrow> Inl e | Inr js \<Rightarrow> Inr (j # js)))"

text \<open>\<open>a[idx]\<close> and \<open>a[idx, :]\<close> with an integer array: the rows at these positions.\<close>

definition take_rows :: "csr \<Rightarrow> int list \<Rightarrow> error + csr" where
  "take_rows m idx =
     (case py_indices (nrows m) idx of
        Inl e \<Rightarrow> Inl e
      | Inr js \<Rightarrow> Inr \<lparr>ncols = ncols m, rws = map (\<lambda>j. rws m ! j) js\<rparr>)"

text \<open>\<open>idx[key]\<close> with an integer array, on a label index.\<close>

definition take_labels :: "int list \<Rightarrow> int list \<Rightarrow> error + int list" where
  "take_labels ls idx =
     (case py_indices (length ls) idx of
        Inl e \<Rightarrow> Inl e
      | Inr js \<Rightarrow> Inr (map (\<lambda>j. ls ! j) js))"

text \<open>A Python slice \<open>start:stop\<close> (step 1) on a sequence of length \<open>n\<close>: a missing bound
  is the end of the sequence, a negative bound counts from the end, and both are clipped
  to \<open>0..n\<close>.\<close>

definition slice_bound :: "nat \<Rightarrow> int option \<Rightarrow> nat \<Rightarrow> nat" where
  "slice_bound n b dflt =
     (case b of
        None \<Rightarrow> dflt
      | Some i \<Rightarrow> (if i < 0 then nat (max 0 (int n + i)) else min n (nat i)))"

definition py_slice :: "int option \<times> int option \<Rightarrow> 'a list \<Rightarrow> 'a list" where
  "py_slice s xs =
     (let n = length xs;
          lo = slice_bound n (fst s) 0;
          hi = slice_bound n (snd s) n
      in take (hi - lo) (drop lo xs))"

definition slice_rows :: "csr \<Rightarrow> int option \<times> int option \<Rightarrow> csr" where
  "slice_rows m s = \<lparr>ncols = ncols m, rws = py_slice s (rws m)\<rparr>"

text \<open>\<open>m.T\<close>.\<close>

definition transpose_csr :: "csr \<Rightarrow> csr" where
  "transpose_csr m =
     \<lparr>ncols = nrows m, rws = map (\<lambda>j. map (\<lambda>r. r ! j) (rws m)) [0..<ncols m]\<rparr>"


text \<open>\<open>a._binopt(b, '_plus_')\<close>: the elementwise binary64 sum of two matrices of one
  shape.\<close>

definition binopt_plus :: "csr \<Rightarrow> csr \<Rightarrow> csr" where
  "binopt_plus a b = \<lparr>ncols = ncols a, rws = map2 (map2 fadd) (rws a) (rws b)\<rparr>"

text \<open>\<open>sparse.coo_matrix((data, (row, col)), shape).tocsr()\<close>: entry \<open>(i, j)\<close> is the
  binary64 sum of the data given for that position; an index outside the shape is a
  \<open>ValueError\<close>.\<close>

definition coo_matrix ::
  "rat list \<Rightarrow> int list \<Rightarrow> int list \<Rightarrow> nat \<times> nat \<Rightarrow> error + csr" where
  "coo_matrix dat ri ci shp =
     (if length ri \<noteq> length dat \<or> length ci \<noteq> length dat
      then Inl (ValueError Lengths_must_match)
      else if list_ex (\<lambda>i. i < 0 \<or> int (fst shp) \<le> i) ri
            \<or> list_ex (\<lambda>j. j < 0 \<or> int (snd shp) \<le> j) ci
      then Inl (ValueError Index_exceeds_dimensions)
      else Inr \<lparr>ncols = snd shp,
                rws = map (\<lambda>i. map (\<lambda>j. fsum (map (\<lambda>t. if ri ! t = int i \<and> ci ! t = int j
                                                        then dat ! t else 0)
                                                 [0..<length dat]))
                                    [0..<snd shp])
                          [0..<fst shp]\<rparr>)"

section \<open>Label arrays\<close>

text \<open>\<open>_default_index(n)\<close>: the positional range index.\<close>

definition default_index :: "nat \<Rightarrow> int list" where
  "default_index n = map int [0..<n]"

text \<open>\<open>np.unique\<close>: the distinct values, sorted.\<close>

definition np_unique :: "int list \<Rightarrow> int list" where
  "np_unique xs = sort (remdups xs)"

text \<open>The position of a value in an array of labels, \<open>-1\<close> when it is absent: the code
  of a value in a \<open>pd.Categorical\<close>, and \<open>Index.get_indexer\<close> on unique labels.\<close>

fun position_from :: "int \<Rightarrow> int \<Rightarrow> int list \<Rightarrow> int" where
  "position_from k v [] = - 1"
| "position_from k v (x # xs) = (if x = v then k else position_from (k + 1) v xs)"

definition get_indexer :: "int list \<Rightarrow> int list \<Rightarrow> int list" where
  "get_indexer ls target = map (\<lambda>v. position_from 0 v ls) target"

text \<open>\<open>pd.Categorical(values, categories).codes\<close>; pandas refuses categories that are not
  unique.\<close>

definition categorical_codes :: "int list \<Rightarrow> int list \<Rightarrow> error + int list" where
  "categorical_codes vs cats =
     (if \<not> distinct cats then Inl (ValueError Categories_not_unique)
      else Inr (get_indexer cats vs))"

text \<open>\<open>np.argsort\<close>: the positions of the values in ascending order of value. numpy's
  default sort may order equal values either way; the model takes them in their original
  order.\<close>

definition argsort :: "int list \<Rightarrow> nat list" where
  "argsort xs = map snd (sort_key fst (zip xs [0..<length xs]))"

text \<open>\<open>a == b\<close> on two label indexes: pandas compares elementwise and refuses indexes
  of different lengths.\<close>

definition index_eq :: "int list \<Rightarrow> int list \<Rightarrow> error + bool list" where
  "index_eq a b =
     (if length a \<noteq> length b then Inl (ValueError Lengths_must_match)
      else Inr (map2 (=) a b))"


section \<open>Joining two label indexes\<close>

text \<open>
  \<open>Index.join(other, how, return_indexers=True)\<close> of pandas, on indexes of unique labels:
  the joined labels and, for each side, either \<open>None\<close> (the side needs no reordering) or
  the position in that side of every joined label, \<open>-1\<close> where the side has no such
  label. The default of \<open>how\<close> is \<open>'left'\<close>. Indexes of duplicate labels, which pandas
  joins many-to-many, are outside this model, and so are multi-level indexes.
\<close>

datatype how = Left | Outer

definition join_monotonic ::
  "how \<Rightarrow> int list \<Rightarrow> int list \<Rightarrow> int list \<times> int list option \<times> int list option" where
  "join_monotonic h self other =
     (if self = other then (self, None, None)
      else (case h of
              Left \<Rightarrow> (self, None, Some (get_indexer other self))
            | Outer \<Rightarrow>
                (let join_index = np_unique (self @ other)
                 in (join_index, Some (get_indexer self join_index),
                     Some (get_indexer other join_index)))))"

definition index_union :: "int list \<Rightarrow> int list \<Rightarrow> int list option" where
  \<comment> \<open>\<open>None\<close>: the union is \<open>self\<close> itself.\<close>
  "index_union self other =
     (if other = [] \<or> self = other then None
      else Some (sort (self @ filter (\<lambda>v. v \<notin> set self) other)))"

definition index_join ::
  "how \<Rightarrow> int list \<Rightarrow> int list \<Rightarrow> int list \<times> int list option \<times> int list option" where
  "index_join h self other =
     (if other = [] then (self, None, Some (replicate (length self) (- 1)))
      else if self = [] \<and> h = Outer
      then (other, Some (replicate (length other) (- 1)), None)
      else if sorted self \<and> sorted other then join_monotonic h self other
      else (case h of
              Left \<Rightarrow> (self, None, Some (get_indexer other self))
            | Outer \<Rightarrow>
                (case index_union self other of
                   None \<Rightarrow> (self, None, Some (get_indexer other self))
                 | Some join_index \<Rightarrow>
                     (join_index, Some (get_indexer self join_index),
                      Some (get_indexer other join_index)))))"

section \<open>The sparse frame\<close>

text \<open>
  The fields \<open>_index\<close>, \<open>_columns\<close>, \<open>_data\<close> and \<open>shape\<close> of the class. \<open>_data\<close> holds the
  matrix and one more row, the sentinel.
\<close>

record SparseFrame =
  s_index :: "int list"
  s_columns :: "int list"
  s_data :: csr
  shape :: "nat \<times> nat"

definition init_csr :: "csr \<Rightarrow> error + csr" where
  "init_csr m = vstack m (zeros 1 (ncols m))"

text \<open>\<open>SparseFrame(data, index, columns)\<close>. A matrix of this model is two-dimensional, so
  the check of the number of dimensions always passes. The lengths of the labels are not
  checked: both assertions are commented out in the source.\<close>

definition SparseFrame_init ::
  "csr \<Rightarrow> int list option \<Rightarrow> int list option \<Rightarrow> error + SparseFrame" where
  "SparseFrame_init dat idx cols =
     (let N = nrows dat; K = ncols dat;
          index' = (case idx of None \<Rightarrow> default_index N | Some i \<Rightarrow> i);
          columns' = (case cols of None \<Rightarrow> default_index K | Some c \<Rightarrow> c)
      in case init_csr dat of
           Inl e \<Rightarrow> Inl e
         | Inr d \<Rightarrow> Inr \<lparr>s_index = index', s_columns = columns', s_data = d,
                          shape = csr_shape dat\<rparr>)"

text \<open>The property \<open>data\<close>: \<open>self._data[:-1, :]\<close>.\<close>

definition data :: "SparseFrame \<Rightarrow> csr" where
  "data self = slice_rows (s_data self) (None, Some (- 1))"

subsection \<open>Alignment helpers\<close>

definition align_side :: "csr \<Rightarrow> int list option \<Rightarrow> error + csr" where
  "align_side a lidx =
     (case lidx of
        None \<Rightarrow> Inr (slice_rows a (None, Some (- 1)))
      | Some l \<Rightarrow> take_rows a l)"

definition aligned_csr_elop ::
  "csr \<Rightarrow> csr \<Rightarrow> int list \<Rightarrow> int list \<Rightarrow> error + (csr \<times> int list)" where
  "aligned_csr_elop a b a_idx b_idx =
     (case index_join Left a_idx b_idx of
        (join_idx, lidx, ridx) \<Rightarrow>
          (case align_side a lidx of
             Inl e \<Rightarrow> Inl e
           | Inr a_new \<Rightarrow>
               (case align_side b ridx of
                  Inl e \<Rightarrow> Inl e
                | Inr b_new \<Rightarrow>
                    if csr_shape b_new \<noteq> csr_shape a_new then Inl AssertionError
                    else Inr (binopt_plus a_new b_new, join_idx))))"

definition matrix_join ::
  "csr \<Rightarrow> csr \<Rightarrow> int list \<Rightarrow> int list \<Rightarrow> error + (csr \<times> int list)" where
  "matrix_join a b a_idx b_idx =
     (case index_join Outer a_idx b_idx of
        (join_idx, lidx, ridx) \<Rightarrow>
          (case align_side a lidx of
             Inl e \<Rightarrow> Inl e
           | Inr a_new \<Rightarrow>
               (case align_side b ridx of
                  Inl e \<Rightarrow> Inl e
                | Inr b_new \<Rightarrow>
                    (case hstack a_new b_new of
                       Inl e \<Rightarrow> Inl e
                     | Inr d \<Rightarrow> Inr (d, join_idx)))))"

subsection \<open>add\<close>

definition add :: "SparseFrame \<Rightarrow> SparseFrame \<Rightarrow> error + SparseFrame" where
  "add self other =
     (case index_eq (s_columns self) (s_columns other) of
        Inl e \<Rightarrow> Inl e
      | Inr bs \<Rightarrow>
          if \<not> list_all (\<lambda>b. b) bs then Inl AssertionError
          else (case aligned_csr_elop (s_data self) (s_data other)
                       (s_index self) (s_index other) of
                  Inl e \<Rightarrow> Inl e
                | Inr (d, new_idx) \<Rightarrow>
                    SparseFrame_init d (Some new_idx) (Some (s_columns self))))"

subsection \<open>join\<close>

text \<open>The four branches of \<open>join\<close>, on frames whose row index is not multi-level. The
  general path along the rows ends with \<open>data.T.to_csr()\<close>; a scipy matrix has no
  attribute of that name (the method is \<open>tocsr\<close>).\<close>

definition join_rows_short :: "SparseFrame \<Rightarrow> SparseFrame \<Rightarrow> error + SparseFrame" where
  "join_rows_short self other =
     (case vstack (data self) (data other) of
        Inl e \<Rightarrow> Inl e
      | Inr d \<Rightarrow> SparseFrame_init d (Some (s_index self @ s_index other))
                   (Some (s_columns self)))"

definition join_rows_aligned :: "SparseFrame \<Rightarrow> SparseFrame \<Rightarrow> error + SparseFrame" where
  "join_rows_aligned self other =
     (case matrix_join (transpose_csr (s_data self)) (transpose_csr (s_data other))
             (s_columns self) (s_columns other) of
        Inl e \<Rightarrow> Inl e
      | Inr (d, new_index) \<Rightarrow> Inl AttributeError)"

definition join_columns_short :: "SparseFrame \<Rightarrow> SparseFrame \<Rightarrow> error + SparseFrame" where
  "join_columns_short self other =
     (case hstack (data self) (data other) of
        Inl e \<Rightarrow> Inl e
      | Inr d \<Rightarrow> SparseFrame_init d (Some (s_index self))
                   (Some (s_columns self @ s_columns other)))"

definition join_columns_aligned :: "SparseFrame \<Rightarrow> SparseFrame \<Rightarrow> error + SparseFrame" where
  "join_columns_aligned self other =
     (case matrix_join (s_data self) (s_data other) (s_index self) (s_index other) of
        Inl e \<Rightarrow> Inl e
      | Inr (d, new_index) \<Rightarrow>
          SparseFrame_init d (Some new_index) (Some (s_columns self @ s_columns other)))"


subsection \<open>groupby\<close>







subsection \<open>sort_index and positional selection\<close>

definition sort_index :: "SparseFrame \<Rightarrow> error + SparseFrame" where
  "sort_index self =
     (let passive_sort_idx = map int (argsort (s_index self))
      in case take_rows (s_data self) passive_sort_idx of
           Inl e \<Rightarrow> Inl e
         | Inr d \<Rightarrow>
             (case take_labels (s_index self) passive_sort_idx of
                Inl e \<Rightarrow> Inl e
              | Inr idx \<Rightarrow> SparseFrame_init d (Some idx) None))"

definition slice_frame :: "SparseFrame \<Rightarrow> int option \<times> int option \<Rightarrow> error + SparseFrame" where
  \<comment> \<open>\<open>_slice(sliceobj)\<close>\<close>
  "slice_frame self sliceobj =
     SparseFrame_init (slice_rows (s_data self) sliceobj)
       (Some (py_slice sliceobj (s_index self))) None"

datatype key = Position int | Positions "int list"

definition ixs :: "SparseFrame \<Rightarrow> key \<Rightarrow> int \<Rightarrow> error + SparseFrame" where
  \<comment> \<open>\<open>_ixs(key, axis)\<close>\<close>
  "ixs self k axis =
     (if axis \<noteq> 0 then Inl NotImplementedError
      else (let ps = (case k of Position i \<Rightarrow> [i] | Positions is \<Rightarrow> is)
            in case take_labels (s_index self) ps of
                 Inl e \<Rightarrow> Inl e
               | Inr new_idx \<Rightarrow>
                   (case take_rows (s_data self) ps of
                      Inl e \<Rightarrow> Inl e
                    | Inr d \<Rightarrow> SparseFrame_init d (Some new_idx) None)))"

subsection \<open>Column assignment\<close>

text \<open>\<open>np.hstack([value, [0]]).reshape(-1, 1)\<close> as a matrix of one column.\<close>

definition column :: "rat list \<Rightarrow> csr" where
  "column v = \<lparr>ncols = 1, rws = map (\<lambda>x. [x]) v\<rparr>"

text \<open>\<open>Index.append\<close> of pandas returns a new index and leaves its receiver as it is.\<close>

definition index_append :: "int list \<Rightarrow> int list \<Rightarrow> int list" where
  "index_append idx other = idx @ other"

text \<open>\<open>frame[key] = value\<close>: the frame after the assignment. The source calls
  \<open>self._columns.append(pd.Index([key]))\<close> and drops the result; \<open>shape\<close> is not
  assigned.\<close>

definition setitem :: "SparseFrame \<Rightarrow> int \<Rightarrow> rat list \<Rightarrow> error + SparseFrame" where
  "setitem self k v =
     (let csc = s_data self;
          val = column (v @ [0])
      in case hstack csc val of
           Inl e \<Rightarrow> Inl e
         | Inr new_data \<Rightarrow>
             (let dropped = index_append (s_columns self) [k]
              in Inr (self\<lparr>s_data := new_data\<rparr>)))"

section \<open>One-hot encoding\<close>

definition csr_one_hot_series :: "int list \<Rightarrow> int list \<Rightarrow> error + csr" where
  "csr_one_hot_series s categories =
     (case categorical_codes s categories of
        Inl e \<Rightarrow> Inl e
      | Inr codes \<Rightarrow>
          (let n_features = length categories;
               n_samples = length codes;
               mask = map (\<lambda>c. c \<noteq> - 1) codes
           in if list_ex (\<lambda>b. \<not> b) mask
              then Inl (ValueError (Unknown_categorical
                     (np_unique (map fst (filter (\<lambda>p. \<not> snd p) (zip s mask))))))
              else coo_matrix (replicate n_samples 1) (default_index n_samples) codes
                     (n_samples, n_features)))"

section \<open>Repartitioning to fewer partitions\<close>












section \<open>Example frames\<close>

text \<open>Frames as the constructor builds them, used to run the operations.\<close>

definition frame_a :: SparseFrame where
  "frame_a = \<lparr>s_index = [0, 1], s_columns = [0, 1],
              s_data = \<lparr>ncols = 2, rws = [[1, 0], [0, 1], [0, 0]]\<rparr>, shape = (2, 2)\<rparr>"

definition frame_b :: SparseFrame where
  "frame_b = \<lparr>s_index = [2, 3], s_columns = [0, 1],
              s_data = \<lparr>ncols = 2, rws = [[5, 0], [0, 5], [0, 0]]\<rparr>, shape = (2, 2)\<rparr>"

definition frame_c :: SparseFrame where
  "frame_c = \<lparr>s_index = [1, 2], s_columns = [0, 1],
              s_data = \<lparr>ncols = 2, rws = [[5, 0], [0, 5], [0, 0]]\<rparr>, shape = (2, 2)\<rparr>"

definition frame_d :: SparseFrame where
  "frame_d = \<lparr>s_index = [7, 3], s_columns = [10, 20],
              s_data = \<lparr>ncols = 2, rws = [[1, 0], [0, 1], [0, 0]]\<rparr>, shape = (2, 2)\<rparr>"

definition frame_g :: SparseFrame where
  "frame_g = \<lparr>s_index = [7, 3, 7, 3], s_columns = [10, 20],
              s_data = \<lparr>ncols = 2, rws = [[1, 0], [0, 1], [1, 0], [5, 5], [0, 0]]\<rparr>,
              shape = (4, 2)\<rparr>"

text \<open>Two rows under one label, whose exact sum \<open>2 ^ 53 + 1\<close> is not a binary64 number.\<close>

definition frame_h :: SparseFrame where
  "frame_h = \<lparr>s_index = [5, 5], s_columns = [0],
              s_data = \<lparr>ncols = 1, rws = [[9007199254740992], [1], [0]]\<rparr>,
              shape = (2, 1)\<rparr>"

definition then_sort :: "error + SparseFrame \<Rightarrow> error + SparseFrame" where
  "then_sort r = (case r of Inl e \<Rightarrow> Inl e | Inr f \<Rightarrow> sort_index f)"



section \<open>The example frames are constructed frames\<close>

lemma frame_a_init:
  "SparseFrame_init \<lparr>ncols = 2, rws = [[1, 0], [0, 1]]\<rparr> None None = Inr frame_a"
  by code_simp

lemma frame_b_init:
  "SparseFrame_init \<lparr>ncols = 2, rws = [[5, 0], [0, 5]]\<rparr> (Some [2, 3]) None = Inr frame_b"
  by code_simp

lemma frame_c_init:
  "SparseFrame_init \<lparr>ncols = 2, rws = [[5, 0], [0, 5]]\<rparr> (Some [1, 2]) None = Inr frame_c"
  by code_simp

lemma frame_d_init:
  "SparseFrame_init \<lparr>ncols = 2, rws = [[1, 0], [0, 1]]\<rparr> (Some [7, 3]) (Some [10, 20])
     = Inr frame_d"
  by code_simp

section \<open>add\<close>

text \<open>
  Claim C1: adding two frames with the same columns and disjoint row labels should give
  the union of the row labels, each row taken from the side that has the label.
  \<open>_aligned_csr_elop\<close> joins the indexes with the default \<open>how\<close> of pandas, a left join,
  so the result has the labels of the left frame only. Here \<open>frame_a\<close> has the labels
  0, 1 and \<open>frame_b\<close> the labels 2, 3: their sum is \<open>frame_a\<close>, and the rows of
  \<open>frame_b\<close> are lost.
\<close>

theorem add_disjoint_drops_right_rows:
  "add frame_a frame_b = Inr frame_a"
  by code_simp

text \<open>
  Claim C4: \<open>A.add(B).sort_index()\<close> should equal \<open>B.add(A).sort_index()\<close>. With the
  left join each sum keeps the labels of its own left operand: \<open>frame_a\<close> (labels 0, 1)
  and \<open>frame_c\<close> (labels 1, 2) give the labels 0, 1 one way and 1, 2 the other way.
\<close>

theorem add_not_commutative:
  "then_sort (add frame_a frame_c) =
     Inr \<lparr>s_index = [0, 1], s_columns = [0, 1],
          s_data = \<lparr>ncols = 2, rws = [[1, 0], [5, 1], [0, 0]]\<rparr>, shape = (2, 2)\<rparr>
   \<and> then_sort (add frame_c frame_a) =
     Inr \<lparr>s_index = [1, 2], s_columns = [0, 1],
          s_data = \<lparr>ncols = 2, rws = [[5, 1], [0, 5], [0, 0]]\<rparr>, shape = (2, 2)\<rparr>"
  by code_simp

section \<open>Slicing and the sentinel row\<close>

text \<open>
  Claim C2: the sentinel row should never be exposed, and row slicing should never select
  it. \<open>_slice\<close> slices \<open>_data\<close>, which holds the sentinel, and not \<open>data\<close>. The full
  slice \<open>[:]\<close> of \<open>frame_a\<close> (two rows) gives a frame of three logical rows, the third being
  the sentinel of \<open>frame_a\<close>, under two row labels.
\<close>

theorem slice_selects_sentinel:
  "slice_frame frame_a (None, None) =
     Inr \<lparr>s_index = [0, 1], s_columns = [0, 1],
          s_data = \<lparr>ncols = 2, rws = [[1, 0], [0, 1], [0, 0], [0, 0]]\<rparr>,
          shape = (3, 2)\<rparr>"
  by code_simp

text \<open>
  Claim C10: \<open>sort_index\<close>, \<open>_slice\<close> and \<open>_ixs\<close> reset the column labels to the default
  index and should slice row labels and rows alike. The column labels 10, 20 of
  \<open>frame_d\<close> are reset to 0, 1; but the slice \<open>[-1:]\<close> takes the last label, 3, with
  the sentinel row instead of the row \<open>[0, 1]\<close> of that label.
\<close>

theorem slice_labels_and_rows_differ:
  "slice_frame frame_d (Some (- 1), None) =
     Inr \<lparr>s_index = [3], s_columns = [0, 1],
          s_data = \<lparr>ncols = 2, rws = [[0, 0], [0, 0]]\<rparr>, shape = (1, 2)\<rparr>"
  by code_simp

section \<open>Column assignment\<close>

text \<open>
  Claim C5: after \<open>frame[key] = values\<close> the column labels should have one more label
  and agree with the matrix again. The result of \<open>Index.append\<close> is dropped, so the
  labels stay as they were: after \<open>frame_a[6] = [1, 1]\<close> the matrix has three columns
  under the two labels 0, 1, and \<open>shape\<close> is still \<open>(2, 2)\<close>.
\<close>

theorem setitem_keeps_column_labels:
  "setitem frame_a 6 [1, 1] =
     Inr \<lparr>s_index = [0, 1], s_columns = [0, 1],
          s_data = \<lparr>ncols = 3, rws = [[1, 0, 1], [0, 1, 1], [0, 0, 0]]\<rparr>,
          shape = (2, 2)\<rparr>"
  by code_simp

section \<open>join\<close>


section \<open>Repartitioning\<close>


section \<open>Binary64 rounding is exact on integers up to 2 ^ 53\<close>

lemma round_half_even_of_int: "round_half_even (of_int m) = m"
  by (simp add: round_half_even_def)

lemma float64_zero: "float64 0 = 0"
  by (simp add: float64_def)

lemma float64_of_int:
  assumes "\<bar>z\<bar> \<le> 2 ^ 53"
  shows "float64 (of_int z) = of_int z"
proof (cases "z = 0")
  case True
  then show ?thesis by (simp add: float64_zero)
next
  case False
  define n where "n = nat \<bar>z\<bar>"
  define w where "w = floorlog 2 n"
  have n: "0 < n" "n \<le> 2 ^ 53"
    using False assms by (auto simp: n_def nat_le_iff)
  have a: "\<bar>of_int z :: rat\<bar> = of_nat n"
    by (simp add: n_def)
  from floorlog_bounds [of n 2] n(1)
  have bnd: "2 ^ (w - 1) \<le> n" "n < 2 ^ w"
    by (simp_all add: w_def)
  have w1: "1 \<le> w"
    using n(1) by (auto simp: w_def floorlog_def)
  have p: "(2::nat) ^ (w - 1) \<le> 2 ^ 53"
    using bnd(1) n(2) by (rule order_trans)
  have w2: "w - 1 \<le> 53"
  proof (rule power_le_imp_le_exp)
    show "(1::nat) < 2" by simp
    show "(2::nat) ^ (w - 1) \<le> 2 ^ 53" by (fact p)
  qed
  have il: "ilog2 (of_nat n) = int w - 1"
    using n(1) by (simp add: ilog2_def w_def)
  define q :: rat where
    "q = (if 52 \<le> int w - 1 then 2 ^ nat (int w - 1 - 52) else 1 / 2 ^ nat (52 - (int w - 1)))"
  have q0: "q \<noteq> 0"
    by (simp add: q_def)
  have "\<exists>m::int. of_nat n / q = of_int m"
  proof (cases "52 \<le> int w - 1")
    case False
    then have "of_nat n / q = (of_int (int n * 2 ^ nat (52 - (int w - 1))) :: rat)"
      by (simp add: q_def)
    then show ?thesis by blast
  next
    case True
    show ?thesis
    proof (cases "w = 53")
      case True
      then have "of_nat n / q = (of_int (int n) :: rat)"
        by (simp add: q_def)
      then show ?thesis by blast
    next
      case False
      with True w2 have w: "w = 54" by linarith
      with bnd(1) n(2) have "n = 2 ^ 53" by simp
      with w have "of_nat n / q = (of_int (2 ^ 52) :: rat)"
        by (simp add: q_def)
      then show ?thesis by blast
    qed
  qed
  then obtain m :: int where m: "of_nat n / q = of_int m"
    by blast
  then have mq: "of_int m * q = of_nat n"
    using q0 by (simp add: field_simps)
  have e: "max (int w - 1) (- 1022) = int w - 1"
    using w1 by simp
  have "float64 (of_int z) = sgn (of_int z) * of_int (round_half_even (of_nat n / q)) * q"
    using False by (simp add: float64_def a il e q_def Let_def)
  also have "\<dots> = sgn (of_int z) * (of_int m * q)"
    by (simp add: m round_half_even_of_int)
  also have "\<dots> = sgn (of_int z) * \<bar>of_int z\<bar>"
    by (simp only: mq a)
  also have "\<dots> = of_int z"
    by (simp add: sgn_mult_abs)
  finally show ?thesis .
qed


lemma foldl_fadd_exact:
  assumes "\<forall>y \<in> set ys. \<exists>z::int. y = of_int z"
    and "\<bar>of_int a\<bar> + sum_list (map abs ys) \<le> (2 ^ 53 :: rat)"
  shows "foldl fadd (of_int a) ys = of_int a + sum_list ys"
  using assms
proof (induction ys arbitrary: a)
  case Nil
  then show ?case by simp
next
  case (Cons y ys)
  from Cons.prems(1) obtain z :: int where z: "y = of_int z" by auto
  have nn: "0 \<le> sum_list (map abs ys)"
    by (rule sum_list_nonneg) auto
  have "\<bar>(of_int (a + z) :: rat)\<bar> \<le> \<bar>of_int a\<bar> + \<bar>of_int z\<bar>"
    by simp
  also have "\<dots> \<le> 2 ^ 53"
    using Cons.prems(2) nn by (simp add: z)
  finally have b: "\<bar>(of_int (a + z) :: rat)\<bar> \<le> 2 ^ 53" .
  have "(of_int \<bar>a + z\<bar> :: rat) \<le> of_int (2 ^ 53)"
    using b by simp
  then have "\<bar>a + z\<bar> \<le> 2 ^ 53"
    by (simp only: of_int_le_iff)
  then have step: "fadd (of_int a) y = of_int (a + z)"
    using float64_of_int [of "a + z"] by (simp add: fadd_def z)
  have "\<bar>(of_int (a + z) :: rat)\<bar> + sum_list (map abs ys)
      \<le> \<bar>of_int a\<bar> + \<bar>of_int z\<bar> + sum_list (map abs ys)"
    by simp
  also have "\<dots> \<le> 2 ^ 53"
    using Cons.prems(2) by (simp add: z)
  finally have ih: "foldl fadd (of_int (a + z)) ys = of_int (a + z) + sum_list ys"
    using Cons.prems(1) by (intro Cons.IH) auto
  have "foldl fadd (of_int a) (y # ys) = foldl fadd (fadd (of_int a) y) ys"
    by simp
  also have "\<dots> = foldl fadd (of_int (a + z)) ys"
    by (simp only: step)
  also have "\<dots> = of_int (a + z) + sum_list ys"
    by (fact ih)
  also have "\<dots> = of_int a + sum_list (y # ys)"
    by (simp add: z)
  finally show ?case .
qed

lemma fsum_exact:
  assumes "\<forall>y \<in> set ys. \<exists>z::int. y = of_int z"
    and "sum_list (map abs ys) \<le> (2 ^ 53 :: rat)"
  shows "fsum ys = sum_list ys"
  using foldl_fadd_exact [OF assms(1), of 0] assms(2) by (simp add: fsum_def)

lemma fsum_single:
  "fsum (map (\<lambda>t. if t = i \<and> P t then 1 else 0) [0..<n]) = (if i < n \<and> P i then 1 else 0)"
proof -
  have "fsum (map (\<lambda>t. if t = i \<and> P t then 1 else 0) [0..<n])
      = sum_list (map (\<lambda>t. if t = i \<and> P t then 1 else (0::rat)) [0..<n])"
  proof (rule fsum_exact)
    show "\<forall>y \<in> set (map (\<lambda>t. if t = i \<and> P t then 1 else (0::rat)) [0..<n]).
            \<exists>z::int. y = of_int z"
      by (auto intro: exI [of _ 1] exI [of _ 0])
    have "sum_list (map abs (map (\<lambda>t. if t = i \<and> P t then 1 else (0::rat)) [0..<n]))
        = (if i < n \<and> P i then 1 else 0)"
      by (induction n) auto
    then show "sum_list (map abs (map (\<lambda>t. if t = i \<and> P t then 1 else (0::rat)) [0..<n]))
                 \<le> 2 ^ 53"
      by simp
  qed
  also have "\<dots> = (if i < n \<and> P i then 1 else 0)"
    by (induction n) auto
  finally show ?thesis .
qed

section \<open>One-hot encoding: the categories of a series\<close>

lemma position_from_absent: "v \<notin> set xs \<Longrightarrow> position_from k v xs = - 1"
  by (induction xs arbitrary: k) auto

lemma position_from_present:
  "v \<in> set xs \<Longrightarrow> k \<le> position_from k v xs \<and> position_from k v xs < k + int (length xs)
     \<and> xs ! nat (position_from k v xs - k) = v"
proof (induction xs arbitrary: k)
  case Nil
  then show ?case by simp
next
  case (Cons x xs)
  show ?case
  proof (cases "x = v")
    case True
    then show ?thesis by simp
  next
    case False
    with Cons.prems have "v \<in> set xs" by simp
    from Cons.IH [OF this, of "k + 1"]
    have b: "k + 1 \<le> position_from (k + 1) v xs"
      "position_from (k + 1) v xs < k + 1 + int (length xs)"
      "xs ! nat (position_from (k + 1) v xs - (k + 1)) = v" by auto
    from b(1) have "nat (position_from (k + 1) v xs - k)
        = Suc (nat (position_from (k + 1) v xs - (k + 1)))" by linarith
    with b False show ?thesis by simp
  qed
qed

lemma position_from_nth:
  "distinct xs \<Longrightarrow> j < length xs \<Longrightarrow> position_from k (xs ! j) xs = k + int j"
proof (induction xs arbitrary: k j)
  case Nil
  then show ?case by simp
next
  case (Cons x xs)
  show ?case
  proof (cases j)
    case 0
    then show ?thesis by simp
  next
    case (Suc j')
    with Cons.prems have "xs ! j' \<noteq> x" "j' < length xs" "distinct xs" by auto
    with Cons.IH [of j' "k + 1"] Suc show ?thesis by simp
  qed
qed

lemma position_from_eq_iff:
  assumes "distinct xs" "j < length xs"
  shows "position_from 0 v xs = int j \<longleftrightarrow> xs ! j = v"
proof
  assume h: "position_from 0 v xs = int j"
  then have "v \<in> set xs" using position_from_absent [of v xs 0] by force
  from position_from_present [OF this, of 0] h show "xs ! j = v" by simp
next
  assume "xs ! j = v"
  with position_from_nth [OF assms, of 0] show "position_from 0 v xs = int j" by simp
qed

lemma sum_list_single:
  fixes c :: "nat \<Rightarrow> rat"
  shows "sum_list (map (\<lambda>t. if t = i \<and> P t then c t else 0) [0..<n])
           = (if i < n \<and> P i then c i else 0)"
  by (induction n) auto


lemma position_from_code:
  "position_from 0 v xs \<noteq> - 1 \<longleftrightarrow> v \<in> set xs"
  using position_from_absent [of v xs 0] position_from_present [of v xs 0] by force

lemma coo_sum_default_index:
  "fsum (map (\<lambda>t. if default_index n ! t = int i \<and> codes ! t = int j
                     then replicate n 1 ! t else 0) [0..<n])
     = (if i < n \<and> codes ! i = int j then 1 else 0)"
proof -
  have "map (\<lambda>t. if default_index n ! t = int i \<and> codes ! t = int j
                  then replicate n 1 ! t else (0::rat)) [0..<n]
      = map (\<lambda>t. if t = i \<and> codes ! t = int j then 1 else 0) [0..<n]"
    by (rule map_cong) (auto simp: default_index_def)
  then show ?thesis
    by (simp only: fsum_single)
qed

lemma coo_matrix_one_per_row:
  assumes "\<forall>c \<in> set codes. 0 \<le> c \<and> c < int k"
  shows "coo_matrix (replicate (length codes) 1) (default_index (length codes)) codes
           (length codes, k)
         = Inr \<lparr>ncols = k,
                rws = map (\<lambda>i. map (\<lambda>j. if codes ! i = int j then 1 else 0) [0..<k])
                        [0..<length codes]\<rparr>"
proof -
  have a: "\<not> list_ex (\<lambda>i. i < 0 \<or> int (length codes) \<le> i) (default_index (length codes))"
    by (auto simp: list_ex_iff default_index_def)
  have b: "\<not> list_ex (\<lambda>j. j < 0 \<or> int k \<le> j) codes"
    using assms by (auto simp: list_ex_iff)
  show ?thesis
    unfolding coo_matrix_def using a b
    by (simp add: default_index_def [symmetric] coo_sum_default_index)
       (simp add: default_index_def)
qed

lemma filter_zip_mask:
  "map fst (filter (\<lambda>p. \<not> snd p) (zip s (map f s))) = filter (\<lambda>v. \<not> f v) s"
  by (induction s) auto

lemma one_hot_unknown:
  assumes "distinct categories" "\<not> set s \<subseteq> set categories"
  shows "csr_one_hot_series s categories
         = Inl (ValueError (Unknown_categorical (sorted_list_of_set (set s - set categories))))"
proof -
  let ?f = "\<lambda>v. position_from 0 v categories \<noteq> - 1"
  have codes: "categorical_codes s categories = Inr (map (\<lambda>v. position_from 0 v categories) s)"
    using assms(1) by (simp add: categorical_codes_def get_indexer_def)
  have ex: "list_ex (\<lambda>b. \<not> b) (map ?f s)"
    using assms(2) by (auto simp: list_ex_iff position_from_code)
  have "map fst (filter (\<lambda>p. \<not> snd p) (zip s (map ?f s))) = filter (\<lambda>v. v \<notin> set categories) s"
    by (simp add: filter_zip_mask position_from_code)
  moreover have "set (filter (\<lambda>v. v \<notin> set categories) s) = set s - set categories"
    by auto
  ultimately have "np_unique (map fst (filter (\<lambda>p. \<not> snd p) (zip s (map ?f s))))
      = sorted_list_of_set (set s - set categories)"
    by (simp only: np_unique_def sorted_list_of_set_sort_remdups [symmetric])
  with codes ex show ?thesis
    by (simp add: csr_one_hot_series_def Let_def o_def)
qed

lemma one_hot_known:
  assumes "distinct categories" "set s \<subseteq> set categories"
  shows "csr_one_hot_series s categories
         = Inr \<lparr>ncols = length categories,
                rws = map (\<lambda>i. map (\<lambda>j. if categories ! j = s ! i then 1 else 0)
                                   [0..<length categories])
                        [0..<length s]\<rparr>"
proof -
  let ?codes = "map (\<lambda>v. position_from 0 v categories) s"
  have codes: "categorical_codes s categories = Inr ?codes"
    using assms(1) by (simp add: categorical_codes_def get_indexer_def)
  have nex: "\<not> list_ex (\<lambda>b. \<not> b) (map (\<lambda>c. c \<noteq> - 1) ?codes)"
    using assms(2) by (auto simp: list_ex_iff position_from_code)
  have rng: "\<forall>c \<in> set ?codes. 0 \<le> c \<and> c < int (length categories)"
    using assms(2) position_from_present [of _ categories 0] by auto
  have ent: "map (\<lambda>i. map (\<lambda>j. if ?codes ! i = int j then 1 else (0::rat)) [0..<length categories])
               [0..<length ?codes]
           = map (\<lambda>i. map (\<lambda>j. if categories ! j = s ! i then 1 else 0) [0..<length categories])
               [0..<length s]"
    using assms(1) by (auto simp: position_from_eq_iff)
  from coo_matrix_one_per_row [OF rng] ent
  have "coo_matrix (replicate (length ?codes) 1) (default_index (length ?codes)) ?codes
           (length ?codes, length categories)
        = Inr \<lparr>ncols = length categories,
                rws = map (\<lambda>i. map (\<lambda>j. if categories ! j = s ! i then 1 else 0)
                                   [0..<length categories])
                        [0..<length s]\<rparr>"
    by simp
  with codes nex show ?thesis
    by (simp add: csr_one_hot_series_def Let_def)
qed

lemma one_count:
  assumes "distinct xs" "v \<in> set xs"
  shows "sum_list (map (\<lambda>j. if xs ! j = v then 1 else (0::rat)) [0..<length xs]) = 1"
proof -
  from assms(2) obtain j0 where j0: "j0 < length xs" "xs ! j0 = v"
    by (auto simp: in_set_conv_nth)
  have "map (\<lambda>j. if xs ! j = v then 1 else (0::rat)) [0..<length xs]
      = map (\<lambda>j. if j = j0 \<and> True then 1 else 0) [0..<length xs]"
    using assms(1) j0 by (auto simp: nth_eq_iff_index_eq)
  then show ?thesis
    using j0(1) by (simp only: sum_list_single [where c = "\<lambda>t. 1"]) simp
qed

text \<open>
  Claim C8: for a vocabulary (distinct categories), one-hot encoding a series with a
  value outside the vocabulary fails with a \<open>ValueError\<close> that names the offending
  values (the distinct values of the series that are not categories, sorted); otherwise
  it returns a matrix of one row per value and one column per category, where each row
  has a single 1, in the column of its value's category.
\<close>

theorem one_hot_series_spec:
  assumes "distinct categories"
  shows "(set s \<subseteq> set categories \<longrightarrow>
            (\<exists>m. csr_one_hot_series s categories = Inr m
                 \<and> csr_shape m = (length s, length categories) \<and> wf_csr m
                 \<and> (\<forall>i < length s.
                       sum_list (rws m ! i) = 1
                       \<and> (\<forall>j < length categories.
                            rws m ! i ! j = (if categories ! j = s ! i then 1 else 0)))))
       \<and> (\<not> set s \<subseteq> set categories \<longrightarrow>
            csr_one_hot_series s categories
              = Inl (ValueError (Unknown_categorical
                      (sorted_list_of_set (set s - set categories)))))"
proof (intro conjI impI)
  assume sub: "set s \<subseteq> set categories"
  let ?m = "\<lparr>ncols = length categories,
             rws = map (\<lambda>i. map (\<lambda>j. if categories ! j = s ! i then 1 else (0::rat))
                                [0..<length categories])
                     [0..<length s]\<rparr>"
  have "csr_one_hot_series s categories = Inr ?m"
    by (rule one_hot_known [OF assms sub])
  moreover have "csr_shape ?m = (length s, length categories)"
    by (simp add: csr_shape_def nrows_def)
  moreover have "wf_csr ?m"
    by (simp add: wf_csr_def list_all_iff)
  moreover have "\<forall>i < length s.
      sum_list (rws ?m ! i) = 1
      \<and> (\<forall>j < length categories. rws ?m ! i ! j = (if categories ! j = s ! i then 1 else 0))"
    using sub one_count [OF assms] by (auto simp: subset_iff)
  ultimately show "\<exists>m. csr_one_hot_series s categories = Inr m
                 \<and> csr_shape m = (length s, length categories) \<and> wf_csr m
                 \<and> (\<forall>i < length s.
                       sum_list (rws m ! i) = 1
                       \<and> (\<forall>j < length categories.
                            rws m ! i ! j = (if categories ! j = s ! i then 1 else 0)))"
    by blast
next
  assume "\<not> set s \<subseteq> set categories"
  then show "csr_one_hot_series s categories
              = Inl (ValueError (Unknown_categorical
                      (sorted_list_of_set (set s - set categories))))"
    by (rule one_hot_unknown [OF assms])
qed

theorem one_hot_series_spec_witness:
  "distinct [3, 4, 5 :: int]
   \<and> set [3, 5, 3] \<subseteq> set [3, 4, 5 :: int]
   \<and> (\<exists>m. csr_one_hot_series [3, 5, 3] [3, 4, 5] = Inr m
          \<and> csr_shape m = (length [3, 5, 3 :: int], length [3, 4, 5 :: int]) \<and> wf_csr m
          \<and> (\<forall>i < length [3, 5, 3 :: int].
                sum_list (rws m ! i) = 1
                \<and> (\<forall>j < length [3, 4, 5 :: int].
                     rws m ! i ! j = (if [3, 4, 5 :: int] ! j = [3, 5, 3] ! i then 1 else 0))))
   \<and> \<not> set [3, 9, 3, 7, 9] \<subseteq> set [3, 4, 5 :: int]
   \<and> csr_one_hot_series [3, 9, 3, 7, 9] [3, 4, 5] = Inl (ValueError (Unknown_categorical [7, 9]))"
proof -
  have d: "distinct [3, 4, 5 :: int]" by simp
  have k: "set [3, 5, 3] \<subseteq> set [3, 4, 5 :: int]" by simp
  have u: "\<not> set [3, 9, 3, 7, 9] \<subseteq> set [3, 4, 5 :: int]" by simp
  have v: "sorted_list_of_set (set [3, 9, 3, 7, 9] - set [3, 4, 5 :: int]) = [7, 9]"
    by code_simp
  from one_hot_series_spec [OF d, of "[3, 5, 3]"] k
  have a: "\<exists>m. csr_one_hot_series [3, 5, 3] [3, 4, 5] = Inr m
          \<and> csr_shape m = (length [3, 5, 3 :: int], length [3, 4, 5 :: int]) \<and> wf_csr m
          \<and> (\<forall>i < length [3, 5, 3 :: int].
                sum_list (rws m ! i) = 1
                \<and> (\<forall>j < length [3, 4, 5 :: int].
                     rws m ! i ! j = (if [3, 4, 5 :: int] ! j = [3, 5, 3] ! i then 1 else 0)))"
    by blast
  from one_hot_series_spec [OF d, of "[3, 9, 3, 7, 9]"] u v
  have b: "csr_one_hot_series [3, 9, 3, 7, 9] [3, 4, 5]
             = Inl (ValueError (Unknown_categorical [7, 9]))"
    by simp
  from d k a u b show ?thesis by blast
qed

section \<open>Column assignment of a wrong length\<close>

lemma py_slice_butlast: "py_slice (None, Some (- 1)) xs = butlast xs"
  by (cases "xs = []") (auto simp: py_slice_def slice_bound_def butlast_conv_take nat_diff_distrib')

lemma nrows_data: "nrows (data self) = nrows (s_data self) - 1"
  by (simp add: data_def slice_rows_def nrows_def py_slice_butlast)

text \<open>
  Claim C9 says that a column assignment whose values do not have the length of the row
  count fails with an \<open>AssertionError\<close>. \<open>__setitem__\<close> asserts nothing: the failure
  comes from \<open>sparse.hstack\<close>, which raises a \<open>ValueError\<close> on blocks of different row
  counts. On \<open>frame_a\<close> (two rows) and one value:
\<close>

theorem setitem_mismatch_counterexample:
  "setitem frame_a 6 [1] = Inl (ValueError Incompatible_dimensions)
   \<and> setitem frame_a 6 [1] \<noteq> Inl AssertionError"
  by code_simp

text \<open>
  Claim C9, amended: for every frame (its stored matrix holds at least the sentinel row),
  a column assignment whose values do not have the length of the frame's row count fails
  with the \<open>ValueError\<close> of the horizontal stacking.
\<close>

theorem setitem_length_mismatch:
  assumes "0 < nrows (s_data self)" "length v \<noteq> nrows (data self)"
  shows "setitem self k v = Inl (ValueError Incompatible_dimensions)"
proof -
  from assms have "nrows (s_data self) \<noteq> nrows (column (v @ [0]))"
    by (simp add: nrows_data) (simp add: nrows_def column_def)
  then show ?thesis
    by (simp add: setitem_def hstack_def)
qed

theorem setitem_length_mismatch_witness:
  "0 < nrows (s_data frame_b) \<and> length [1, 2, 3 :: rat] \<noteq> nrows (data frame_b)
   \<and> setitem frame_b 6 [1, 2, 3] = Inl (ValueError Incompatible_dimensions)"
proof -
  have a: "0 < nrows (s_data frame_b)" by code_simp
  have b: "length [1, 2, 3 :: rat] \<noteq> nrows (data frame_b)" by code_simp
  from a b setitem_length_mismatch [OF a b, of 6] show ?thesis by blast
qed

section \<open>groupby\<close>

lemma py_indices_nat:
  "\<forall>j \<in> set js. j < n \<Longrightarrow> py_indices n (map int js) = Inr js"
  by (induction js) (auto simp: py_index_def)










lemma SparseFrame_init_eq:
  "SparseFrame_init m (Some idx) (Some cols)
     = Inr \<lparr>s_index = idx, s_columns = cols,
            s_data = \<lparr>ncols = ncols m, rws = rws m @ [replicate (ncols m) 0]\<rparr>,
            shape = (nrows m, ncols m)\<rparr>"
  by (simp add: SparseFrame_init_def init_csr_def vstack_def zeros_def csr_shape_def)




section \<open>groupby: binary64 sums\<close>






lemma frame_h_init:
  "SparseFrame_init \<lparr>ncols = 1, rws = [[9007199254740992], [1]]\<rparr> (Some [5, 5]) None
     = Inr frame_h"
  by (simp add: SparseFrame_init_def init_csr_def vstack_def zeros_def csr_shape_def nrows_def
      default_index_def frame_h_def)




section \<open>What the operations do guarantee\<close>

text \<open>The frame used to run \<open>groupby\<close> is a constructed frame as well.\<close>

lemma frame_g_init:
  "SparseFrame_init \<lparr>ncols = 2, rws = [[1, 0], [0, 1], [1, 0], [5, 5]]\<rparr>
     (Some [7, 3, 7, 3]) (Some [10, 20]) = Inr frame_g"
  by code_simp

subsection \<open>The constructor and the sentinel row\<close>

text \<open>The constructor always returns a frame; its stored matrix is the given matrix and
  a zero row, and \<open>data\<close> gives the matrix back.\<close>

lemma SparseFrame_init_total:
  "\<exists>r. SparseFrame_init m idx cols = Inr r
       \<and> s_data r = \<lparr>ncols = ncols m, rws = rws m @ [replicate (ncols m) 0]\<rparr>
       \<and> shape r = (nrows m, ncols m)
       \<and> s_index r = (case idx of None \<Rightarrow> default_index (nrows m) | Some i \<Rightarrow> i)
       \<and> s_columns r = (case cols of None \<Rightarrow> default_index (ncols m) | Some c \<Rightarrow> c)"
  by (simp add: SparseFrame_init_def init_csr_def vstack_def zeros_def csr_shape_def)

lemma init_sentinel:
  assumes "SparseFrame_init m idx cols = Inr r"
  shows "zero_row (last (rws (s_data r)))" and "data r = m" and "shape r = csr_shape (data r)"
  using assms SparseFrame_init_total [of m idx cols]
  by (auto simp: zero_row_def list_all_iff data_def slice_rows_def py_slice_butlast
      csr_shape_def nrows_def)

subsection \<open>add keeps the labels of its left operand (unique labels)\<close>

lemma add_keeps_left_labels:
  assumes "add self other = Inr r"
    and "distinct (s_index self)" "distinct (s_index other)"
  shows "s_index r = s_index self"
proof -
  have j: "fst (index_join Left a b) = a" for a b
    by (simp add: index_join_def join_monotonic_def)
  from assms(1) show ?thesis
    using j [of "s_index self" "s_index other"]
    by (auto simp: add_def aligned_csr_elop_def SparseFrame_init_def
        split: sum.splits if_splits prod.splits)
qed

subsection \<open>sort_index, slicing and positional selection reset the column labels\<close>

lemma sort_index_resets_columns:
  "sort_index self = Inr r \<Longrightarrow> s_columns r = default_index (ncols (s_data self))"
  by (auto simp: sort_index_def SparseFrame_init_def take_rows_def Let_def split: sum.splits)

lemma slice_frame_resets_columns:
  "slice_frame self sl = Inr r \<Longrightarrow> s_columns r = default_index (ncols (s_data self))"
  by (auto simp: slice_frame_def SparseFrame_init_def slice_rows_def Let_def split: sum.splits)

lemma ixs_resets_columns:
  "ixs self k axis = Inr r \<Longrightarrow> s_columns r = default_index (ncols (s_data self))"
  by (auto simp: ixs_def SparseFrame_init_def take_rows_def Let_def split: sum.splits if_splits)

subsection \<open>Column assignment keeps the sentinel row zero\<close>

lemma last_map2:
  assumes "length xs = length ys" "xs \<noteq> []"
  shows "last (map2 f xs ys) = f (last xs) (last ys)"
proof -
  from assms have "ys \<noteq> []" by auto
  with assms show ?thesis
    by (simp add: last_conv_nth)
qed

lemma setitem_sentinel:
  assumes "setitem self k v = Inr r" "zero_row (last (rws (s_data self)))"
  shows "zero_row (last (rws (s_data r)))" and "ncols (s_data r) = Suc (ncols (s_data self))"
    and "s_columns r = s_columns self" and "s_index r = s_index self"
    and "nrows (s_data r) = nrows (s_data self)"
proof -
  let ?val = "column (v @ [0])"
  from assms(1) have len: "nrows (s_data self) = nrows ?val"
    by (auto simp: setitem_def hstack_def Let_def split: if_splits)
  with assms(1) have r: "r = self\<lparr>s_data := \<lparr>ncols = ncols (s_data self) + ncols ?val,
                                 rws = map2 (@) (rws (s_data self)) (rws ?val)\<rparr>\<rparr>"
    by (auto simp: setitem_def hstack_def Let_def)
  from len have l: "length (rws (s_data self)) = length (rws ?val)" "rws (s_data self) \<noteq> []"
    by (auto simp: nrows_def column_def)
  have "last (rws (s_data r)) = last (rws (s_data self)) @ last (rws ?val)"
    by (simp add: r last_map2 [OF l])
  moreover have "last (rws ?val) = [0]"
    by (simp add: column_def)
  ultimately show "zero_row (last (rws (s_data r)))"
    using assms(2) by (simp add: zero_row_def)
  show "ncols (s_data r) = Suc (ncols (s_data self))"
    by (simp add: r column_def)
  show "s_columns r = s_columns self" "s_index r = s_index self"
    by (simp_all add: r)
  show "nrows (s_data r) = nrows (s_data self)"
    using l(1) by (simp add: r nrows_def)
qed

subsection \<open>join: the fast path along the rows, and both paths along the columns\<close>

lemma join_rows_short_shape:
  assumes "ncols (s_data self) = ncols (s_data other)"
  shows "\<exists>r. join_rows_short self other = Inr r
           \<and> shape r = (nrows (data self) + nrows (data other), ncols (s_data self))
           \<and> rws (data r) = rws (data self) @ rws (data other)
           \<and> s_index r = s_index self @ s_index other
           \<and> s_columns r = s_columns self"
proof -
  have b: "butlast (xs @ ys @ [z]) = xs @ ys" for xs ys :: "rat list list" and z
    by (simp add: butlast_append)
  from assms show ?thesis
    by (simp add: join_rows_short_def vstack_def SparseFrame_init_eq nrows_def)
       (simp add: data_def slice_rows_def py_slice_butlast b)
qed

lemma get_indexer_self:
  "distinct xs \<Longrightarrow> get_indexer xs xs = map int [0..<length xs]"
  by (auto simp: get_indexer_def position_from_nth intro!: nth_equalityI)

lemma take_rows_prefix:
  assumes "nrows m = Suc n"
  shows "take_rows m (map int [0..<n]) = Inr (slice_rows m (None, Some (- 1)))"
proof -
  have "py_indices (nrows m) (map int [0..<n]) = Inr [0..<n]"
    using assms by (intro py_indices_nat) auto
  moreover have "map ((!) (rws m)) [0..<n] = butlast (rws m)"
    using assms by (auto simp: nrows_def nth_butlast intro!: nth_equalityI)
  ultimately show ?thesis
    by (simp add: take_rows_def slice_rows_def py_slice_butlast)
qed

lemma join_columns_paths_agree:
  assumes "s_index self = s_index other" "distinct (s_index self)"
    and "nrows (s_data self) = Suc (length (s_index self))"
    and "nrows (s_data other) = Suc (length (s_index other))"
  shows "join_columns_aligned self other = join_columns_short self other"
proof -
  let ?i = "s_index self"
  have l: "align_side (s_data self) None = Inr (data self)"
    by (simp add: align_side_def data_def)
  have r1: "align_side (s_data other) None = Inr (data other)"
    by (simp add: align_side_def data_def)
  have r2: "align_side (s_data other) (Some (get_indexer ?i ?i)) = Inr (data other)"
    using assms by (simp add: align_side_def get_indexer_self take_rows_prefix data_def)
  have r3: "?i = [] \<Longrightarrow> align_side (s_data other) (Some []) = Inr (data other)"
    using r2 by (simp add: get_indexer_def)
  have "matrix_join (s_data self) (s_data other) ?i ?i
      = (case hstack (data self) (data other) of Inl e \<Rightarrow> Inl e | Inr d \<Rightarrow> Inr (d, ?i))"
  proof (cases "?i = []")
    case True
    with l r3 show ?thesis
      by (simp add: matrix_join_def index_join_def split: sum.splits)
  next
    case False
    with l r1 r2 show ?thesis
      by (simp add: matrix_join_def index_join_def join_monotonic_def index_union_def)
  qed
  then show ?thesis
    using assms(1)
    by (auto simp: join_columns_aligned_def join_columns_short_def split: sum.splits)
qed


text \<open>The general path along the rows returns no frame, whatever the input.\<close>

lemma join_rows_aligned_never_returns:
  "\<exists>e. join_rows_aligned self other = Inl e"
  by (auto simp: join_rows_aligned_def split: sum.splits prod.splits)

subsection \<open>Slices that reach the sentinel row, and slices that do not\<close>

lemma py_slice_full: "py_slice (None, None) xs = xs"
  by (simp add: py_slice_def slice_bound_def)

lemma slice_frame_full_exposes_sentinel:
  "\<exists>r. slice_frame self (None, None) = Inr r \<and> data r = s_data self
       \<and> s_index r = s_index self"
proof -
  have sr: "slice_rows (s_data self) (None, None) = s_data self"
    by (simp add: slice_rows_def py_slice_full)
  have e: "slice_frame self (None, None)
             = SparseFrame_init (s_data self) (Some (s_index self)) None"
    by (simp add: slice_frame_def py_slice_full sr)
  from SparseFrame_init_total [of "s_data self" "Some (s_index self)" None]
  obtain r where r: "SparseFrame_init (s_data self) (Some (s_index self)) None = Inr r"
    "s_data r = \<lparr>ncols = ncols (s_data self),
                  rws = rws (s_data self) @ [replicate (ncols (s_data self)) 0]\<rparr>"
    "s_index r = s_index self"
    by auto
  have "data r = s_data self"
    by (simp add: data_def slice_rows_def py_slice_butlast r(2))
  with e r show ?thesis by simp
qed

lemma py_slice_clipped:
  assumes "0 \<le> a" "0 \<le> b"
  shows "py_slice (Some a, Some b) xs
         = take (min (length xs) (nat b) - min (length xs) (nat a))
             (drop (min (length xs) (nat a)) xs)"
  using assms by (simp add: py_slice_def slice_bound_def Let_def)

lemma py_slice_within:
  assumes "0 \<le> a" "0 \<le> b" "nat b < length xs"
  shows "py_slice (Some a, Some b) xs = py_slice (Some a, Some b) (butlast xs)"
proof (cases "nat a \<le> length xs - 1")
  case True
  have m: "min (length xs) (nat a) = nat a" "min (length xs - 1) (nat a) = nat a"
    "min (length xs) (nat b) = nat b" "min (length xs - 1) (nat b) = nat b"
    using True assms(3) by auto
  have "take (nat b - nat a) (drop (nat a) (butlast xs))
      = take (nat b - nat a) (drop (nat a) xs)"
    using assms(3) by (simp add: butlast_conv_take drop_take min_def)
  then show ?thesis
    by (simp only: py_slice_clipped [OF assms(1,2)] m length_butlast)
next
  case False
  then have m: "min (length xs) (nat b) - min (length xs) (nat a) = 0"
    "min (length xs - 1) (nat b) - min (length xs - 1) (nat a) = 0"
    using assms(3) by auto
  show ?thesis
    by (simp only: py_slice_clipped [OF assms(1,2)] m length_butlast take_0)
qed

lemma slice_frame_within:
  assumes "0 \<le> a" "0 \<le> b" "nat b < nrows (s_data self)"
  shows "\<exists>r. slice_frame self (Some a, Some b) = Inr r
           \<and> rws (data r) = py_slice (Some a, Some b) (rws (data self))
           \<and> s_index r = py_slice (Some a, Some b) (s_index self)"
proof -
  let ?m = "slice_rows (s_data self) (Some a, Some b)"
  from SparseFrame_init_total [of ?m "Some (py_slice (Some a, Some b) (s_index self))" None]
  obtain r where r: "slice_frame self (Some a, Some b) = Inr r"
    "s_data r = \<lparr>ncols = ncols ?m, rws = rws ?m @ [replicate (ncols ?m) 0]\<rparr>"
    "s_index r = py_slice (Some a, Some b) (s_index self)"
    by (auto simp: slice_frame_def)
  have "rws (data r) = rws ?m"
    by (simp add: data_def slice_rows_def py_slice_butlast r(2))
  also have "\<dots> = py_slice (Some a, Some b) (rws (data self))"
    using py_slice_within [OF assms(1,2), of "rws (s_data self)"] assms(3)
    by (simp add: slice_rows_def data_def py_slice_butlast nrows_def)
  finally show ?thesis using r by simp
qed

end
